theory Spec2Isabelle
  imports Complex_Main
begin

section \<open>Python strings\<close>

text \<open>
  A Python \<open>str\<close> is modelled as a \<open>string\<close>: one \<open>char\<close> per character, so the model
  covers the strings whose code points are below 256. Lengths count characters, as
  Python's \<open>len\<close> does.
\<close>

definition newline :: char where
  "newline = CHR 0x0A"

definition fence :: string where
  "fence = ''```''"

text \<open>\<open>s.startswith(p)\<close> and \<open>s.endswith(p)\<close>.\<close>

definition startswith :: "string \<Rightarrow> string \<Rightarrow> bool" where
  "startswith s p = (take (length p) s = p)"

definition endswith :: "string \<Rightarrow> string \<Rightarrow> bool" where
  "endswith s p = (length p \<le> length s \<and> drop (length s - length p) s = p)"

text \<open>
  The characters \<open>str.strip()\<close> removes: Python's whitespace among the code points
  below 256 (tab to carriage return, the four separators 0x1C to 0x1F, space, NEL and
  the no-break space).
\<close>

definition isspace :: "char \<Rightarrow> bool" where
  "isspace c = (of_char c \<in> {9, 10, 11, 12, 13, 28, 29, 30, 31, 32, 133, 160 :: nat})"

definition strip :: "string \<Rightarrow> string" where
  "strip s = rev (dropWhile isspace (rev (dropWhile isspace s)))"

text \<open>\<open>s.split("\n")\<close>: never empty, one more piece than there are line breaks.\<close>

fun split_newline :: "string \<Rightarrow> string list" where
  "split_newline [] = [[]]"
| "split_newline (c # cs) =
     (if c = newline then [] # split_newline cs
      else (case split_newline cs of [] \<Rightarrow> [[c]] | l # ls \<Rightarrow> (c # l) # ls))"

text \<open>\<open>"\n".join(pieces)\<close>.\<close>

fun join_newline :: "string list \<Rightarrow> string" where
  "join_newline [] = []"
| "join_newline [l] = l"
| "join_newline (l # ls) = l @ newline # join_newline ls"

text \<open>
  \<open>str.lower()\<close> on the code points below 256: the ASCII capitals and the Latin-1
  capitals 0xC0 to 0xDE (the multiplication sign 0xD7 apart) move up by 32.
\<close>

definition lower_char :: "char \<Rightarrow> char" where
  "lower_char c =
     (let n = (of_char c :: nat)
      in if (65 \<le> n \<and> n \<le> 90) \<or> (192 \<le> n \<and> n \<le> 222 \<and> n \<noteq> 215)
         then char_of (n + 32) else c)"

definition lower :: "string \<Rightarrow> string" where
  "lower s = map lower_char s"

text \<open>\<open>p in s\<close> for two strings: \<open>p\<close> occurs in \<open>s\<close> as a contiguous piece.\<close>

fun is_substring :: "string \<Rightarrow> string \<Rightarrow> bool" where
  "is_substring p [] = (p = [])"
| "is_substring p (c # cs) = (startswith (c # cs) p \<or> is_substring p cs)"

text \<open>\<open>str(n)\<close> for an integer: its decimal digits.\<close>

fun str_nat :: "nat \<Rightarrow> string" where
  "str_nat n =
     (if n < 10 then [''0123456789'' ! n]
      else str_nat (n div 10) @ [''0123456789'' ! (n mod 10)])"

declare str_nat.simps [simp del]

definition str_int :: "int \<Rightarrow> string" where
  "str_int i = (if i < 0 then CHR ''-'' # str_nat (nat (- i)) else str_nat (nat i))"

section \<open>The response cleaner\<close>

text \<open>
  \<^verbatim>\<open>
  def clean_response(response_text):
      if response_text.startswith("```"):
          lines = response_text.split("\n")
          if len(lines) > 1 and lines[0].startswith("```"):
              response_text = "\n".join(lines[1:])
          if response_text.endswith("```"):
              response_text = response_text[:-3].strip()
      return response_text
  \<close>
  (scripts/quality_compare.py; the same lines stand inline in test_model of
  scripts/benchmark_models.py.) The slice \<open>[:-3]\<close> drops the last three characters.
\<close>

definition clean_response :: "string \<Rightarrow> string" where
  "clean_response response_text =
     (if startswith response_text fence then
        (let lines = split_newline response_text;
             unfenced =
               (if length lines > 1 \<and> startswith (lines ! 0) fence
                then join_newline (drop 1 lines) else response_text)
         in if endswith unfenced fence
            then strip (take (length unfenced - 3) unfenced) else unfenced)
      else response_text)"

text \<open>The text after the first line break of \<open>s\<close> (all of it from the second line on).\<close>

definition after_first_line :: "string \<Rightarrow> string" where
  "after_first_line s = tl (dropWhile (\<lambda>c. c \<noteq> newline) s)"

section \<open>Decoded JSON and the Python operations on it\<close>

text \<open>
  What \<open>json.loads\<close> returns: \<open>None\<close>, a bool, an int, a float, a str, a list or a dict
  with string keys (an association list here; the decoder's keys are distinct). The
  floats are a type parameter \<open>'f\<close>: IEEE arithmetic is not modelled, and everything the
  code asks of a float is a field of the runtime below. \<open>dict.get\<close> returns \<open>None\<close> for
  a missing key, which is the value \<open>JNull\<close> that a JSON \<open>null\<close> decodes to.
\<close>

datatype 'f json =
    JNull
  | JBool bool
  | JInt int
  | JFloat 'f
  | JString string
  | JArray "'f json list"
  | JObject "(string \<times> 'f json) list"

text \<open>The exceptions of the model, by their Python names.\<close>

datatype py_error =
    AttributeError
  | TypeError
  | IndexError
  | KeyError
  | OverflowError
  | ValueError
  | RecursionError

text \<open>
  The interpreter's float operations and \<open>repr\<close>, as parameters: the literal \<open>0.0\<close>,
  \<open>float(i)\<close>, \<open>a / b\<close> on two ints (\<open>None\<close> when the quotient is beyond the floats, where
  Python raises OverflowError), \<open>x * y\<close>, \<open>x + y\<close>, \<open>round(x, n)\<close>, the truth value of a
  float (\<open>x != 0\<close>), \<open>x == i\<close> for a float and an int, and \<open>str\<close> of a float, list or
  dict.
\<close>

record 'f py_runtime =
  float_zero :: 'f
  float_of_int :: "int \<Rightarrow> 'f"
  int_truediv :: "int \<Rightarrow> int \<Rightarrow> 'f option"
  float_mul :: "'f \<Rightarrow> 'f \<Rightarrow> 'f"
  float_add :: "'f \<Rightarrow> 'f \<Rightarrow> 'f"
  float_round :: "'f \<Rightarrow> int \<Rightarrow> 'f"
  float_truthy :: "'f \<Rightarrow> bool"
  float_eq_int :: "'f \<Rightarrow> int \<Rightarrow> bool"
  repr_other :: "'f json \<Rightarrow> string"

text \<open>The truth value of a decoded value (\<open>if x\<close>, \<open>not x\<close>).\<close>

fun truthy :: "'f py_runtime \<Rightarrow> 'f json \<Rightarrow> bool" where
  "truthy rt JNull = False"
| "truthy rt (JBool b) = b"
| "truthy rt (JInt i) = (i \<noteq> 0)"
| "truthy rt (JFloat x) = float_truthy rt x"
| "truthy rt (JString s) = (s \<noteq> [])"
| "truthy rt (JArray xs) = (xs \<noteq> [])"
| "truthy rt (JObject kvs) = (kvs \<noteq> [])"

text \<open>
  \<open>x.get(key, default)\<close> and \<open>x.get(key)\<close>: only a dict has the method; on anything
  else the attribute lookup raises AttributeError.
\<close>

fun dict_get_default :: "'f json \<Rightarrow> string \<Rightarrow> 'f json \<Rightarrow> py_error + 'f json" where
  "dict_get_default (JObject kvs) k d = Inr (case map_of kvs k of None \<Rightarrow> d | Some v \<Rightarrow> v)"
| "dict_get_default x k d = Inl AttributeError"

definition dict_get :: "'f json \<Rightarrow> string \<Rightarrow> py_error + 'f json" where
  "dict_get x k = dict_get_default x k JNull"

text \<open>\<open>len(x)\<close>: a str, list or dict has a length; \<open>None\<close>, bools and numbers raise TypeError.\<close>

fun py_len :: "'f json \<Rightarrow> py_error + nat" where
  "py_len (JString s) = Inr (length s)"
| "py_len (JArray xs) = Inr (length xs)"
| "py_len (JObject kvs) = Inr (length kvs)"
| "py_len x = Inl TypeError"

text \<open>
  \<open>for c in x\<close>: the elements of a list, the keys of a dict, the characters of a str
  (each a str of length one).
\<close>

fun py_iter :: "'f json \<Rightarrow> py_error + 'f json list" where
  "py_iter (JArray xs) = Inr xs"
| "py_iter (JObject kvs) = Inr (map (\<lambda>kv. JString (fst kv)) kvs)"
| "py_iter (JString s) = Inr (map (\<lambda>c. JString [c]) s)"
| "py_iter x = Inl TypeError"

text \<open>
  \<open>x[i]\<close> for an int \<open>i \<ge> 0\<close>: a list or str raises IndexError out of range, a dict
  (whose keys are strings) raises KeyError.
\<close>

fun py_index :: "'f json \<Rightarrow> nat \<Rightarrow> py_error + 'f json" where
  "py_index (JArray xs) i = (if i < length xs then Inr (xs ! i) else Inl IndexError)"
| "py_index (JString s) i = (if i < length s then Inr (JString [s ! i]) else Inl IndexError)"
| "py_index (JObject kvs) i = Inl KeyError"
| "py_index x i = Inl TypeError"

text \<open>
  \<open>key in x\<close> for a str \<open>key\<close>: key membership in a dict, an element equal to the
  string in a list, a substring test in a str; TypeError on \<open>None\<close>, bools and numbers.
\<close>

fun py_contains :: "'f json \<Rightarrow> string \<Rightarrow> py_error + bool" where
  "py_contains (JObject kvs) k = Inr (map_of kvs k \<noteq> None)"
| "py_contains (JArray xs) k = Inr (JString k \<in> set xs)"
| "py_contains (JString s) k = Inr (is_substring k s)"
| "py_contains x k = Inl TypeError"

text \<open>\<open>v == x\<close> for an int \<open>v\<close>: a bool counts as 0 or 1, a float compares by value.\<close>

fun eq_int :: "'f py_runtime \<Rightarrow> int \<Rightarrow> 'f json \<Rightarrow> bool" where
  "eq_int rt v (JInt i) = (v = i)"
| "eq_int rt v (JBool b) = (v = (if b then 1 else 0))"
| "eq_int rt v (JFloat x) = float_eq_int rt x v"
| "eq_int rt v x = False"

text \<open>\<open>str(x)\<close>, as an f-string renders a value.\<close>

definition py_str :: "'f py_runtime \<Rightarrow> 'f json \<Rightarrow> string" where
  "py_str rt x =
     (case x of
        JNull \<Rightarrow> ''None''
      | JBool b \<Rightarrow> (if b then ''True'' else ''False'')
      | JInt i \<Rightarrow> str_int i
      | JString s \<Rightarrow> s
      | _ \<Rightarrow> repr_other rt x)"

section \<open>Cost of a call\<close>

text \<open>
  \<open>MODEL_PRICING\<close> is a module-level dict from model identifier to a dict of prices,
  passed to the model as an argument.
  \<^verbatim>\<open>
  def calculate_cost(model, prompt_tokens, completion_tokens):
      pricing = MODEL_PRICING.get(model, {})
      if not pricing:
          return 0.0
      prompt_cost = (prompt_tokens / 1_000_000) * pricing.get("prompt", 0)
      completion_cost = (completion_tokens / 1_000_000) * pricing.get("completion", 0)
      return prompt_cost + completion_cost
  \<close>
\<close>

type_synonym 'f pricing_table = "string \<rightharpoonup> (string \<times> 'f) list"

definition price_get :: "'f py_runtime \<Rightarrow> (string \<times> 'f) list \<Rightarrow> string \<Rightarrow> 'f" where
  "price_get rt pricing k =
     (case map_of pricing k of None \<Rightarrow> float_of_int rt 0 | Some p \<Rightarrow> p)"

definition calculate_cost ::
  "'f py_runtime \<Rightarrow> 'f pricing_table \<Rightarrow> string \<Rightarrow> int \<Rightarrow> int \<Rightarrow> py_error + 'f" where
  "calculate_cost rt model_pricing model n_prompt n_completion =
     (let pricing = (case model_pricing model of None \<Rightarrow> [] | Some p \<Rightarrow> p)
      in if pricing = [] then Inr (float_zero rt)
         else
           (case int_truediv rt n_prompt 1000000 of
              None \<Rightarrow> Inl OverflowError
            | Some prompt_millions \<Rightarrow>
                (let prompt_cost = float_mul rt prompt_millions (price_get rt pricing ''prompt'')
                 in case int_truediv rt n_completion 1000000 of
                      None \<Rightarrow> Inl OverflowError
                    | Some completion_millions \<Rightarrow>
                        (let completion_cost =
                               float_mul rt completion_millions
                                 (price_get rt pricing ''completion'')
                         in Inr (float_add rt prompt_cost completion_cost)))))"

section \<open>The response evaluator\<close>

record token_usage =
  prompt_tokens :: int
  completion_tokens :: int
  total_tokens :: int

record 'f evaluation_result =
  valid_json :: bool
  parse_error :: "string option"
  all_values_present :: bool
  missing_values :: "int list"
  unique_answers :: bool
  duplicate_answers :: "string list"
  clue_count :: nat
  response_time_ms :: 'f
  clues :: "'f json"
  quality_score :: int
  token_usage :: token_usage
  cost_usd :: 'f

text \<open>
  \<open>present_values = [c.get("value") for c in clues if "value" in c]\<close>: clue by clue,
  the test first; the first exception ends the comprehension.
\<close>

fun collect_values :: "'f json list \<Rightarrow> py_error + 'f json list" where
  "collect_values [] = Inr []"
| "collect_values (c # cs) =
     (case py_contains c ''value'' of
        Inl e \<Rightarrow> Inl e
      | Inr has \<Rightarrow>
          if has then
            (case dict_get c ''value'' of
               Inl e \<Rightarrow> Inl e
             | Inr v \<Rightarrow>
                 (case collect_values cs of Inl e \<Rightarrow> Inl e | Inr vs \<Rightarrow> Inr (v # vs)))
          else collect_values cs)"

text \<open>
  \<open>responses = [c.get("response", "").strip().lower() for c in clues if c.get("response")]\<close>:
  \<open>strip\<close> is a method of str only, so a response that is true and not a str raises
  AttributeError.
\<close>

fun collect_responses :: "'f py_runtime \<Rightarrow> 'f json list \<Rightarrow> py_error + string list" where
  "collect_responses rt [] = Inr []"
| "collect_responses rt (c # cs) =
     (case dict_get c ''response'' of
        Inl e \<Rightarrow> Inl e
      | Inr t \<Rightarrow>
          if truthy rt t then
            (case dict_get_default c ''response'' (JString []) of
               Inl e \<Rightarrow> Inl e
             | Inr (JString s) \<Rightarrow>
                 (case collect_responses rt cs of
                    Inl e \<Rightarrow> Inl e
                  | Inr rs \<Rightarrow> Inr (lower (strip s) # rs))
             | Inr other \<Rightarrow> Inl AttributeError)
          else collect_responses rt cs)"

text \<open>
  \<^verbatim>\<open>
  seen = {}
  duplicates = []
  for i, r in enumerate(responses):
      if r in seen:
          duplicates.append(f"Value {clues[i].get('value')}: {r}")
      seen[r] = seen.get(r, 0) + 1
  \<close>
  The index \<open>i\<close> counts the responses and is used on \<open>clues\<close> (\<open>cl\<close> below).
\<close>

fun find_duplicates ::
  "'f py_runtime \<Rightarrow> 'f json \<Rightarrow> nat \<Rightarrow> string list \<Rightarrow> (string \<rightharpoonup> int) \<Rightarrow> string list
     \<Rightarrow> py_error + string list" where
  "find_duplicates rt cl i [] seen duplicates = Inr duplicates"
| "find_duplicates rt cl i (r # rs) seen duplicates =
     (let seen' = seen(r \<mapsto> (case seen r of None \<Rightarrow> 0 | Some n \<Rightarrow> n) + 1)
      in if seen r \<noteq> None then
           (case py_index cl i of
              Inl e \<Rightarrow> Inl e
            | Inr c \<Rightarrow>
                (case dict_get c ''value'' of
                   Inl e \<Rightarrow> Inl e
                 | Inr v \<Rightarrow>
                     find_duplicates rt cl (i + 1) rs seen'
                       (duplicates @ [''Value '' @ py_str rt v @ '': '' @ r])))
         else find_duplicates rt cl (i + 1) rs seen' duplicates)"

text \<open>
  \<^verbatim>\<open>
  for clue in clues:
      if not clue.get("clue"):
          score -= 1
      if not clue.get("response"):
          score -= 1
  \<close>
\<close>

fun field_penalties :: "'f py_runtime \<Rightarrow> 'f json list \<Rightarrow> int \<Rightarrow> py_error + int" where
  "field_penalties rt [] score = Inr score"
| "field_penalties rt (clue # rest) score =
     (case dict_get clue ''clue'' of
        Inl e \<Rightarrow> Inl e
      | Inr t \<Rightarrow>
          (let score1 = (if \<not> truthy rt t then score - 1 else score)
           in case dict_get clue ''response'' of
                Inl e \<Rightarrow> Inl e
              | Inr a \<Rightarrow>
                  (let score2 = (if \<not> truthy rt a then score1 - 1 else score1)
                   in field_penalties rt rest score2)))"

text \<open>
  The result dict as \<open>evaluate_response\<close> first builds it, given the value \<open>cost\<close> that
  \<open>calculate_cost(model, prompt_tokens, completion_tokens)\<close> returned.
\<close>

definition initial_result ::
  "'f py_runtime \<Rightarrow> 'f \<Rightarrow> int \<Rightarrow> int \<Rightarrow> 'f \<Rightarrow> 'f evaluation_result" where
  "initial_result rt elapsed_time n_prompt n_completion cost =
     \<lparr> valid_json = False,
       parse_error = None,
       all_values_present = False,
       missing_values = [],
       unique_answers = False,
       duplicate_answers = [],
       clue_count = 0,
       response_time_ms = float_round rt (float_mul rt elapsed_time (float_of_int rt 1000)) 2,
       clues = JArray [],
       quality_score = 0,
       token_usage =
         \<lparr> prompt_tokens = n_prompt,
           completion_tokens = n_completion,
           total_tokens = n_prompt + n_completion \<rparr>,
       cost_usd = cost \<rparr>"

text \<open>
  The body of the \<open>try\<close> after \<open>json.loads\<close> has returned \<open>data\<close> and \<open>valid_json\<close> is set.
  \<open>Inl\<close> is an exception that leaves \<open>evaluate_response\<close>: the only handler is for
  \<open>json.JSONDecodeError\<close>, which nothing in this body raises.
\<close>

definition evaluate_data ::
  "'f py_runtime \<Rightarrow> 'f json \<Rightarrow> int list \<Rightarrow> 'f evaluation_result
     \<Rightarrow> py_error + 'f evaluation_result" where
  "evaluate_data rt data expected_values result =
     (case dict_get_default data ''clues'' (JArray []) of
        Inl e \<Rightarrow> Inl e
      | Inr cl \<Rightarrow>
     (case py_len cl of
        Inl e \<Rightarrow> Inl e
      | Inr n \<Rightarrow>
     (let result1 = result\<lparr>clue_count := n, clues := cl\<rparr>
      in if \<not> truthy rt cl
         then Inr (result1\<lparr>parse_error := Some ''No clues found in response''\<rparr>)
         else
     (case py_iter cl of
        Inl e \<Rightarrow> Inl e
      | Inr items \<Rightarrow>
     (case collect_values items of
        Inl e \<Rightarrow> Inl e
      | Inr present_values \<Rightarrow>
     (let missing = filter (\<lambda>v. \<not> list_ex (eq_int rt v) present_values) expected_values;
          result2 = result1\<lparr>missing_values := missing,
                            all_values_present := (length missing = 0)\<rparr>
      in
     (case collect_responses rt items of
        Inl e \<Rightarrow> Inl e
      | Inr responses \<Rightarrow>
     (case find_duplicates rt cl 0 responses Map.empty [] of
        Inl e \<Rightarrow> Inl e
      | Inr duplicates \<Rightarrow>
     (let result3 = result2\<lparr>unique_answers := (length responses = card (set responses)),
                            duplicate_answers := duplicates\<rparr>;
          score = 10 - int (length missing) * 2 - int (length duplicates) * 3
      in
     (case field_penalties rt items score of
        Inl e \<Rightarrow> Inl e
      | Inr score1 \<Rightarrow>
     (let score2 = (if n < 5 then score1 - (5 - int n) * 1 else score1)
      in Inr (result3\<lparr>quality_score := max 0 (min 10 score2)\<rparr>))))))))))))"

text \<open>
  What \<open>json.loads(response_text)\<close> does, the standard library's decoder: it raises
  \<open>json.JSONDecodeError\<close> with a message, raises something else (RecursionError on very
  deep nesting, ValueError on an integer literal over the interpreter's digit limit), or
  returns the decoded value.
\<close>

datatype 'f loads_outcome =
    DecodeError string
  | OtherError py_error
  | Decoded "'f json"

text \<open>
  \<open>evaluate_response(response_text, expected_values, elapsed_time, model, prompt_tokens,
  completion_tokens)\<close>. The model takes the outcome of \<open>json.loads\<close> on \<open>response_text\<close>
  in place of the text. The result dict is built first, with the call of
  \<open>calculate_cost\<close> in it; then
  \<^verbatim>\<open>
  try:
      data = json.loads(response_text)
      result["valid_json"] = True
      ...
  except json.JSONDecodeError as e:
      result["parse_error"] = f"JSON parse error: {str(e)[:50]}"
  return result
  \<close>
\<close>

definition evaluate_response ::
  "'f py_runtime \<Rightarrow> 'f pricing_table \<Rightarrow> 'f loads_outcome \<Rightarrow> int list \<Rightarrow> 'f \<Rightarrow> string
     \<Rightarrow> int \<Rightarrow> int \<Rightarrow> py_error + 'f evaluation_result" where
  "evaluate_response rt model_pricing loaded expected_values elapsed_time model
       n_prompt n_completion =
     (case calculate_cost rt model_pricing model n_prompt n_completion of
        Inl e \<Rightarrow> Inl e
      | Inr cost \<Rightarrow>
          (let result = initial_result rt elapsed_time n_prompt n_completion cost
           in case loaded of
                DecodeError msg \<Rightarrow>
                  Inr (result\<lparr>parse_error := Some (''JSON parse error: '' @ take 50 msg)\<rparr>)
              | OtherError e \<Rightarrow> Inl e
              | Decoded data \<Rightarrow>
                  evaluate_data rt data expected_values (result\<lparr>valid_json := True\<rparr>)))"

text \<open>The ladder \<open>[200, 400, 600, 800, 1000]\<close> that test_model passes.\<close>

definition canonical_ladder :: "int list" where
  "canonical_ladder = [200, 400, 600, 800, 1000]"

section \<open>The prompt builder\<close>

definition difficulty_text :: "string \<Rightarrow> string" where
  "difficulty_text difficulty =
     (case map_of
        [(''easy'', ''Make questions accessible and straightforward.''),
         (''normal'', ''Balanced difficulty level.''),
         (''hard'', ''Make questions challenging and specific.'')] difficulty of
        None \<Rightarrow> ''Balanced difficulty level.''
      | Some t \<Rightarrow> t)"

definition value_guidance :: "(int \<times> string) list" where
  "value_guidance =
     [(200, ''Obvious / very well-known facts''),
      (400, ''Common knowledge within topic''),
      (600, ''Requires familiarity with the topic''),
      (800, ''Niche or specific details''),
      (1000, ''Deep cuts / less obvious information'')]"

text \<open>
  \<open>[f"- ${v}: {value_guidance[v]}" for v in ...]\<close>: a subscript on a dict raises KeyError
  for a key that is not there.
\<close>

fun guidance_lines :: "int list \<Rightarrow> py_error + string list" where
  "guidance_lines [] = Inr []"
| "guidance_lines (v # vs) =
     (case map_of value_guidance v of
        None \<Rightarrow> Inl KeyError
      | Some g \<Rightarrow>
          (case guidance_lines vs of
             Inl e \<Rightarrow> Inl e
           | Inr ls \<Rightarrow> Inr ((''- $'' @ str_int v @ '': '' @ g) # ls)))"

text \<open>The truncation budget of the slice \<open>reference_material[:3000]\<close>.\<close>

definition reference_budget :: nat where
  "reference_budget = 3000"

definition ref_material_text :: "string option \<Rightarrow> string" where
  \<open>ref_material_text reference_material =
     (case reference_material of
        None \<Rightarrow> []
      | Some r \<Rightarrow>
          if r = [] then []
          else ''\<newline>Source material to use for questions:\<newline>''
               @ take reference_budget r
               @ ''\<newline>\<newline>All clues must be answerable from the source material above.\<newline>'')\<close>

definition prompt_head :: "string \<Rightarrow> string \<Rightarrow> string \<Rightarrow> string \<Rightarrow> string \<Rightarrow> string" where
  \<open>prompt_head category content_topic theme difficulty_sentence guidance_text =
     ''Generate 5 Jeopardy-style clues for the category: "'' @ category @ ''"\<newline>''
     @ ''\<newline>''
     @ ''Content Topic: "'' @ content_topic @ ''"\<newline>''
     @ ''Theme: '' @ theme @ ''\<newline>''
     @ ''\<newline>''
     @ difficulty_sentence @ ''\<newline>''
     @ ''\<newline>''
     @ ''Value guidelines:\<newline>''
     @ guidance_text @ ''\<newline>''\<close>

definition prompt_tail :: string where
  \<open>prompt_tail =
     ''\<newline>''
     @ ''REQUIREMENTS:\<newline>''
     @ ''- Each clue must have a DIFFERENT unique answer\<newline>''
     @ ''- Clues must be in proper Jeopardy form (answers given as questions)\<newline>''
     @ ''- Clues should be clear, accurate, and engaging\<newline>''
     @ ''- Do NOT use the category name or any form of it in your clues\<newline>''
     @ ''\<newline>''
     @ ''Return JSON format:\<newline>''
     @ ''{\<newline>''
     @ ''  "clues": [\<newline>''
     @ ''    {"value": 200, "clue": "...", "response": "..."},\<newline>''
     @ ''    {"value": 400, "clue": "...", "response": "..."},\<newline>''
     @ ''    {"value": 600, "clue": "...", "response": "..."},\<newline>''
     @ ''    {"value": 800, "clue": "...", "response": "..."},\<newline>''
     @ ''    {"value": 1000, "clue": "...", "response": "..."}\<newline>''
     @ ''  ]\<newline>''
     @ ''}''\<close>

text \<open>
  \<open>build_jeopardy_prompt(category, content_topic, theme, difficulty, reference_material)\<close>:
  the f-string is the head, the reference block and the tail, in this order.
\<close>

definition build_jeopardy_prompt ::
  "string \<Rightarrow> string \<Rightarrow> string \<Rightarrow> string \<Rightarrow> string option \<Rightarrow> py_error + string" where
  "build_jeopardy_prompt category content_topic theme difficulty reference_material =
     (case guidance_lines [200, 400, 600, 800, 1000] of
        Inl e \<Rightarrow> Inl e
      | Inr ls \<Rightarrow>
          Inr (prompt_head category content_topic theme (difficulty_text difficulty)
                 (join_newline ls)
               @ ref_material_text reference_material
               @ prompt_tail))"

section \<open>The cleaner inside extract_json\<close>

text \<open>
  benchmark_ai.py cleans and decodes in one function:
  \<^verbatim>\<open>
  def extract_json(content):
      content = content.strip()
      if content.startswith("```json"):
          content = content[7:]
      elif content.startswith("```"):
          content = content[3:]
      if content.endswith("```"):
          content = content[:-3]
      content = content.strip()
      try:
          return json.loads(content)
      except json.JSONDecodeError as e:
          ...
          return None
  \<close>
  \<open>extract_json_text\<close> is the text handed to \<open>json.loads\<close>, and \<open>json_loads\<close> stands for the
  decoder.
\<close>

definition extract_json_text :: "string \<Rightarrow> string" where
  "extract_json_text content =
     (let c0 = strip content;
          c1 = (if startswith c0 ''```json'' then drop 7 c0
                else if startswith c0 fence then drop 3 c0 else c0);
          c2 = (if endswith c1 fence then take (length c1 - 3) c1 else c1)
      in strip c2)"

definition extract_json ::
  "(string \<Rightarrow> 'f loads_outcome) \<Rightarrow> string \<Rightarrow> py_error + 'f json option" where
  "extract_json json_loads content =
     (case json_loads (extract_json_text content) of
        DecodeError msg \<Rightarrow> Inr None
      | OtherError e \<Rightarrow> Inl e
      | Decoded data \<Rightarrow> Inr (Some data))"

section \<open>Concrete inputs\<close>

text \<open>
  A runtime to run the model on concrete inputs: floats are exact rationals (what the
  IEEE operations approximate, so no quotient overflows), \<open>round(x, n)\<close> goes to the
  nearest multiple of \<open>10^-n\<close>, and \<open>str\<close> of a float, list or dict is not rendered.
\<close>

definition exact_runtime :: "rat py_runtime" where
  "exact_runtime =
     \<lparr> float_zero = 0,
       float_of_int = of_int,
       int_truediv = (\<lambda>a b. Some (of_int a / of_int b)),
       float_mul = (\<lambda>x y. x * y),
       float_add = (\<lambda>x y. x + y),
       float_round = (\<lambda>x n. of_int (round (x * 10 ^ nat n)) / 10 ^ nat n),
       float_truthy = (\<lambda>x. x \<noteq> 0),
       float_eq_int = (\<lambda>x i. x = of_int i),
       repr_other = (\<lambda>x. ''...'') \<rparr>"

text \<open>
  The decoded form of \<open>{"value": v, "clue": c, "response": r}\<close> and of
  \<open>{"clues": [...]}\<close>.
\<close>

definition clue_object :: "int \<Rightarrow> string \<Rightarrow> string \<Rightarrow> 'f json" where
  "clue_object v c r =
     JObject [(''value'', JInt v), (''clue'', JString c), (''response'', JString r)]"

definition clues_payload :: "'f json list \<Rightarrow> 'f json" where
  "clues_payload cs = JObject [(''clues'', JArray cs)]"


section \<open>The payloads the evaluator accepts\<close>

fun is_object :: "'f json \<Rightarrow> bool" where
  "is_object (JObject kvs) = True"
| "is_object x = False"

fun is_str :: "'f json \<Rightarrow> bool" where
  "is_str (JString s) = True"
| "is_str x = False"

text \<open>
  A clue the evaluator can process: an object whose \<open>response\<close> is missing, a str, or
  false (\<open>null\<close>, \<open>false\<close>, zero, an empty list or object).
\<close>

fun response_ok :: "'f py_runtime \<Rightarrow> 'f json \<Rightarrow> bool" where
  "response_ok rt (JObject kvs) =
     (case map_of kvs ''response'' of
        None \<Rightarrow> True
      | Some v \<Rightarrow> is_str v \<or> \<not> truthy rt v)"
| "response_ok rt x = False"

text \<open>A clue that enters the comparison of responses: an object with a true response.\<close>

fun has_response :: "'f py_runtime \<Rightarrow> 'f json \<Rightarrow> bool" where
  "has_response rt (JObject kvs) =
     (case map_of kvs ''response'' of None \<Rightarrow> False | Some v \<Rightarrow> truthy rt v)"
| "has_response rt x = False"

text \<open>
  The outcomes of \<open>json.loads\<close> on which the body of \<open>evaluate_response\<close> runs to its
  end: a JSONDecodeError, or an object whose \<open>clues\<close> is missing, empty (a list, str or
  object), or a list of clues as above.
\<close>

definition evaluable :: "'f py_runtime \<Rightarrow> 'f loads_outcome \<Rightarrow> bool" where
  "evaluable rt loaded =
     (case loaded of
        DecodeError msg \<Rightarrow> True
      | OtherError e \<Rightarrow> False
      | Decoded (JObject kvs) \<Rightarrow>
          (case map_of kvs ''clues'' of
             None \<Rightarrow> True
           | Some (JArray cs) \<Rightarrow> list_all (response_ok rt) cs
           | Some (JString s) \<Rightarrow> s = []
           | Some (JObject m) \<Rightarrow> m = []
           | Some other \<Rightarrow> False)
      | Decoded other \<Rightarrow> False)"

section \<open>Facts about the string operations\<close>

lemma split_newline_nonempty: "split_newline s \<noteq> []"
  by (induction s) (auto split: list.splits)

lemma length_split_newline: "(1 < length (split_newline s)) = (newline \<in> set s)"
proof (induction s)
  case Nil
  show ?case by simp
next
  case (Cons c cs)
  show ?case
  proof (cases "c = newline")
    case True
    then show ?thesis
      using split_newline_nonempty [of cs] by (cases "split_newline cs") auto
  next
    case False
    then show ?thesis
      using Cons by (auto split: list.splits)
  qed
qed

lemma hd_split_newline: "split_newline s ! 0 = takeWhile (\<lambda>c. c \<noteq> newline) s"
  by (induction s) (auto simp: split_newline_nonempty split: list.splits)

lemma tl_split_newline:
  "newline \<in> set s \<Longrightarrow> join_newline (drop 1 (split_newline s)) = after_first_line s"
proof (induction s)
  case Nil
  then show ?case by simp
next
  case (Cons c cs)
  show ?case
  proof (cases "c = newline")
    case True
    have "join_newline (split_newline t) = t" for t
    proof (induction t)
      case Nil
      show ?case by simp
    next
      case (Cons d ds)
      then show ?case
      proof (cases "split_newline ds")
        case Nil
        then show ?thesis using split_newline_nonempty [of ds] by simp
      next
        case (Cons l ls)
        with Cons.IH show ?thesis
          by (cases ls) (auto simp: Let_def)
      qed
    qed
    with True show ?thesis by (simp add: after_first_line_def)
  next
    case False
    with Cons.prems have "newline \<in> set cs" by simp
    then have "join_newline (drop 1 (split_newline cs)) = after_first_line cs"
      by (rule Cons.IH)
    with False show ?thesis
      by (cases "split_newline cs") (auto simp: after_first_line_def)
  qed
qed

lemma startswith_first_line:
  "startswith s fence \<Longrightarrow> startswith (takeWhile (\<lambda>c. c \<noteq> newline) s) fence"
proof -
  assume a: "startswith s fence"
  then obtain r where s: "s = CHR ''`'' # CHR ''`'' # CHR ''`'' # r"
    by (cases s; cases "tl s"; cases "tl (tl s)")
       (auto simp: startswith_def fence_def)
  show ?thesis
    unfolding s by (simp add: startswith_def fence_def newline_def)
qed

lemma length_strip: "length (strip s) \<le> length s"
proof -
  have "length (strip s) \<le> length (dropWhile isspace s)"
    unfolding strip_def by (metis length_dropWhile_le length_rev)
  also have "\<dots> \<le> length s" by (rule length_dropWhile_le)
  finally show ?thesis .
qed

lemma length_after_first_line:
  "newline \<in> set s \<Longrightarrow> length (after_first_line s) < length s"
proof -
  assume "newline \<in> set s"
  then have ne: "dropWhile (\<lambda>c. c \<noteq> newline) s \<noteq> []"
    by (auto simp: dropWhile_eq_Nil_conv)
  have "length (dropWhile (\<lambda>c. c \<noteq> newline) s) \<le> length s"
    by (rule length_dropWhile_le)
  with ne show ?thesis
    unfolding after_first_line_def
    by (cases "dropWhile (\<lambda>c. c \<noteq> newline) s") auto
qed

text \<open>
  What the cleaner computes on a text that begins with a fence: the first line goes
  when there is a line break, and a text that then ends with a fence loses it and is
  stripped at both ends.
\<close>

lemma clean_response_fenced:
  assumes "startswith s fence"
  shows "clean_response s =
     (let rest = (if newline \<in> set s then after_first_line s else s)
      in if endswith rest fence then strip (take (length rest - 3) rest) else rest)"
proof (cases "newline \<in> set s")
  case True
  then have "1 < length (split_newline s)"
    using length_split_newline [of s] by blast
  moreover have "startswith (split_newline s ! 0) fence"
    using assms by (simp add: hd_split_newline startswith_first_line)
  ultimately show ?thesis
    using assms True tl_split_newline [OF True]
    by (simp add: clean_response_def Let_def)
next
  case False
  then have "\<not> 1 < length (split_newline s)"
    using length_split_newline [of s] by blast
  then show ?thesis
    using assms False by (simp add: clean_response_def Let_def)
qed

lemma clean_response_unfenced: "\<not> startswith s fence \<Longrightarrow> clean_response s = s"
  by (simp add: clean_response_def)

lemma clean_response_shrinks:
  assumes "startswith s fence" and "newline \<in> set s \<or> endswith s fence"
  shows "length (clean_response s) < length s"
proof (cases "newline \<in> set s")
  case True
  define rest where "rest = after_first_line s"
  have lt: "length rest < length s"
    unfolding rest_def using True by (rule length_after_first_line)
  have "length (strip (take (length rest - 3) rest)) \<le> length rest"
    using length_strip [of "take (length rest - 3) rest"] by simp
  with lt show ?thesis
    using assms(1) True by (simp add: clean_response_fenced rest_def [symmetric])
next
  case False
  with assms(2) have e: "endswith s fence" by simp
  then have "3 \<le> length s" by (simp add: endswith_def fence_def)
  moreover have "length (strip (take (length s - 3) s)) \<le> length s - 3"
    using length_strip [of "take (length s - 3) s"] by simp
  ultimately show ?thesis
    using assms(1) False e by (simp add: clean_response_fenced)
qed

lemma clean_response_fixed_point:
  "(clean_response t = t) =
     (\<not> startswith t fence \<or> (newline \<notin> set t \<and> \<not> endswith t fence))"
proof (cases "startswith t fence")
  case False
  then show ?thesis by (simp add: clean_response_unfenced)
next
  case True
  show ?thesis
  proof (cases "newline \<in> set t \<or> endswith t fence")
    case True
    with \<open>startswith t fence\<close> have "length (clean_response t) < length t"
      by (rule clean_response_shrinks)
    then have "clean_response t \<noteq> t" by auto
    with True \<open>startswith t fence\<close> show ?thesis by auto
  next
    case False
    with \<open>startswith t fence\<close> show ?thesis
      by (simp add: clean_response_fenced)
  qed
qed

lemma first_line_split:
  "newline \<in> set s \<Longrightarrow>
     s = takeWhile (\<lambda>c. c \<noteq> newline) s @ newline # after_first_line s"
proof -
  assume "newline \<in> set s"
  then have "dropWhile (\<lambda>c. c \<noteq> newline) s \<noteq> []"
    by (auto simp: dropWhile_eq_Nil_conv)
  then have "dropWhile (\<lambda>c. c \<noteq> newline) s = newline # after_first_line s"
    unfolding after_first_line_def
    by (metis (mono_tags, lifting) hd_dropWhile list.collapse)
  then show ?thesis
    by (metis takeWhile_dropWhile_id)
qed

lemma strip_braces:
  "strip (CHR ''{'' # body @ [CHR ''}'', newline]) = CHR ''{'' # body @ [CHR ''}'']"
  by (simp add: strip_def isspace_def newline_def)

lemma fenced_json_example:
  "clean_response (''```json'' @ newline # ''{'' @ body @ ''}'' @ newline # fence)
     = ''{'' @ body @ ''}''"
proof -
  let ?s = "''```json'' @ newline # ''{'' @ body @ ''}'' @ newline # fence"
  have sw: "startswith ?s fence" by (simp add: startswith_def fence_def)
  have nl: "newline \<in> set ?s" by simp
  have af: "after_first_line ?s = (''{'' @ body @ ''}'' @ [newline]) @ fence"
    by (simp add: after_first_line_def newline_def)
  have "clean_response ?s = strip (''{'' @ body @ ''}'' @ [newline])"
    unfolding clean_response_fenced [OF sw] Let_def af using nl
    by (simp add: endswith_def fence_def)
  then show ?thesis using strip_braces [of body] by simp
qed

text \<open>
  The cleaner of \<open>extract_json\<close> returns the same inner text on a payload fenced with
  the tag \<open>json\<close>; with any other tag it removes the marker only and the tag stays.
\<close>

lemma extract_json_text_fenced_json:
  "extract_json_text (''```json'' @ newline # ''{'' @ body @ ''}'' @ newline # fence)
     = ''{'' @ body @ ''}''"
proof -
  let ?s = "''```json'' @ newline # ''{'' @ body @ ''}'' @ newline # fence"
  have s: "strip ?s = ?s"
    by (simp add: strip_def isspace_def fence_def)
  have d: "drop 7 ?s = (newline # ''{'' @ body @ ''}'' @ [newline]) @ fence"
    by simp
  have e: "strip (newline # ''{'' @ body @ ''}'' @ [newline]) = ''{'' @ body @ ''}''"
    by (simp add: strip_def isspace_def newline_def)
  show ?thesis
    unfolding extract_json_text_def s Let_def
    using e by (simp add: startswith_def endswith_def fence_def)
qed

lemma extract_json_text_other_tag:
  "extract_json_text (''```python'' @ newline # ''x'' @ newline # ''```'')
     = ''python'' @ newline # ''x''"
  by (simp add: extract_json_text_def strip_def isspace_def startswith_def endswith_def
      fence_def newline_def Let_def)

section \<open>Facts about the evaluator and the prompt builder\<close>

lemma response_ok_object: "response_ok rt x \<Longrightarrow> is_object x"
  by (cases x) auto

lemma collect_values_ok:
  "list_all is_object items \<Longrightarrow> \<exists>vs. collect_values items = Inr vs"
proof (induction items)
  case Nil
  show ?case by simp
next
  case (Cons x xs)
  then obtain kvs where x: "x = JObject kvs" by (cases x) auto
  from Cons obtain vs where "collect_values xs = Inr vs" by auto
  then show ?case by (simp add: x dict_get_def)
qed

lemma collect_values_error:
  "collect_values items = Inl e \<Longrightarrow> e = AttributeError \<or> e = TypeError"
proof (induction items)
  case Nil
  then show ?case by simp
next
  case (Cons x xs)
  then show ?case
    by (cases x) (auto simp: dict_get_def split: sum.splits if_splits)
qed

lemma collect_responses_ok:
  "list_all (response_ok rt) items \<Longrightarrow>
     \<exists>rs. collect_responses rt items = Inr rs \<and> length rs \<le> length items"
proof (induction items)
  case Nil
  show ?case by simp
next
  case (Cons x xs)
  then obtain kvs where x: "x = JObject kvs" by (cases x) auto
  from Cons obtain rs where rs: "collect_responses rt xs = Inr rs" "length rs \<le> length xs"
    by auto
  show ?case
  proof (cases "map_of kvs ''response''")
    case None
    with rs show ?thesis by (simp add: x dict_get_def)
  next
    case (Some v)
    with Cons.prems x have "is_str v \<or> \<not> truthy rt v" by simp
    then show ?thesis
      using rs Some by (cases v) (auto simp: x dict_get_def)
  qed
qed

lemma collect_responses_Inr:
  "collect_responses rt items = Inr rs \<Longrightarrow> list_all (response_ok rt) items"
proof (induction items arbitrary: rs)
  case Nil
  show ?case by simp
next
  case (Cons x xs)
  show ?case
  proof (cases x)
    case (JObject kvs)
    show ?thesis
    proof (cases "map_of kvs ''response''")
      case None
      with Cons JObject show ?thesis by (auto simp: dict_get_def)
    next
      case (Some v)
      with Cons JObject show ?thesis
        by (cases v) (auto simp: dict_get_def split: sum.splits if_splits)
    qed
  qed (use Cons.prems in \<open>auto simp: dict_get_def\<close>)
qed

lemma collect_responses_error:
  "collect_responses rt items = Inl e \<Longrightarrow> e = AttributeError"
proof (induction items)
  case Nil
  then show ?case by simp
next
  case (Cons x xs)
  then show ?case
    by (cases x) (auto simp: dict_get_def split: sum.splits if_splits option.splits json.splits)
qed

lemma find_duplicates_ok:
  "list_all is_object items \<Longrightarrow> i + length rs \<le> length items \<Longrightarrow>
     \<exists>d. find_duplicates rt (JArray items) i rs seen dups = Inr d"
proof (induction rs arbitrary: i seen dups)
  case Nil
  show ?case by simp
next
  case (Cons r rs)
  from Cons.prems have i: "i < length items" and n: "Suc i + length rs \<le> length items"
    by auto
  from Cons.prems(1) i have "is_object (items ! i)"
    by (simp add: list_all_length)
  then obtain kvs where kvs: "items ! i = JObject kvs" by (cases "items ! i") auto
  from Cons.IH [OF Cons.prems(1) n] show ?case
    using i kvs by (simp add: Let_def dict_get_def)
qed

lemma field_penalties_ok:
  "list_all is_object items \<Longrightarrow> \<exists>s'. field_penalties rt items s = Inr s'"
proof (induction items arbitrary: s)
  case Nil
  show ?case by simp
next
  case (Cons x xs)
  then obtain kvs where x: "x = JObject kvs" by (cases x) auto
  from Cons show ?case by (simp add: x dict_get_def Let_def)
qed

lemma evaluate_data_returns:
  assumes "evaluable rt (Decoded data)"
  shows "\<exists>r. evaluate_data rt data ev res = Inr r"
proof -
  from assms obtain kvs where data: "data = JObject kvs"
    by (cases data) (auto simp: evaluable_def)
  show ?thesis
  proof (cases "map_of kvs ''clues''")
    case None
    then show ?thesis by (simp add: evaluate_data_def data)
  next
    case (Some cl)
    show ?thesis
    proof (cases cl)
      case (JArray items)
      with assms Some data have ok: "list_all (response_ok rt) items"
        by (simp add: evaluable_def)
      then have obj: "list_all is_object items"
        by (auto simp: list_all_iff response_ok_object)
      from collect_values_ok [OF obj] obtain vs where vs: "collect_values items = Inr vs" ..
      from collect_responses_ok [OF ok] obtain rs
        where rs: "collect_responses rt items = Inr rs" "length rs \<le> length items" by auto
      from rs(2) have "0 + length rs \<le> length items" by simp
      from find_duplicates_ok [OF obj this] obtain d
        where d: "find_duplicates rt (JArray items) 0 rs Map.empty [] = Inr d" by blast
      from field_penalties_ok [OF obj] obtain s'
        where s': "field_penalties rt items
            (10 - int (length (filter (\<lambda>v. \<not> list_ex (eq_int rt v) vs) ev)) * 2
                - int (length d) * 3) = Inr s'" by blast
      show ?thesis
        by (simp add: evaluate_data_def data Some JArray vs rs d s' Let_def)
    qed (use assms Some data in \<open>auto simp: evaluable_def evaluate_data_def\<close>)
  qed
qed

lemma evaluate_data_Inr:
  assumes "evaluate_data rt data ev res = Inr r"
  shows "evaluable rt (Decoded data)"
proof -
  from assms obtain kvs where data: "data = JObject kvs"
    by (cases data) (auto simp: evaluate_data_def)
  show ?thesis
  proof (cases "map_of kvs ''clues''")
    case None
    then show ?thesis by (simp add: evaluable_def data)
  next
    case (Some cl)
    show ?thesis
    proof (cases cl)
      case (JArray items)
      show ?thesis
      proof (cases "items = []")
        case True
        then show ?thesis by (simp add: evaluable_def data Some JArray)
      next
        case False
        with assms obtain rs where "collect_responses rt items = Inr rs"
          by (auto simp: evaluate_data_def data Some JArray Let_def split: sum.splits)
        then have "list_all (response_ok rt) items" by (rule collect_responses_Inr)
        then show ?thesis by (simp add: evaluable_def data Some JArray)
      qed
    next
      case (JString s)
      show ?thesis
      proof (cases s)
        case Nil
        then show ?thesis by (simp add: evaluable_def data Some JString)
      next
        case (Cons a as)
        with assms show ?thesis
          by (auto simp: evaluate_data_def data Some JString Let_def dict_get_def
              split: sum.splits if_splits)
      qed
    next
      case (JObject m)
      show ?thesis
      proof (cases m)
        case Nil
        then show ?thesis by (simp add: evaluable_def data Some JObject)
      next
        case (Cons a as)
        with assms show ?thesis
          by (auto simp: evaluate_data_def data Some JObject Let_def dict_get_def
              split: sum.splits if_splits)
      qed
    qed (use assms Some data in \<open>auto simp: evaluate_data_def\<close>)
  qed
qed

lemma dict_get_default_error: "dict_get_default x k d = Inl e \<Longrightarrow> e = AttributeError"
  by (cases x) auto

lemma py_len_error: "py_len x = Inl e \<Longrightarrow> e = TypeError"
  by (cases x) auto

lemma py_iter_error: "py_iter x = Inl e \<Longrightarrow> e = TypeError"
  by (cases x) auto

lemma py_iter_objects:
  assumes "py_iter cl = Inr items" and "list_all is_object items" and "truthy rt cl"
  shows "cl = JArray items"
proof (cases cl)
  case (JString s)
  with assms show ?thesis by (cases s) auto
next
  case (JObject m)
  with assms show ?thesis by (cases m) auto
qed (use assms in auto)

lemma evaluate_data_error:
  assumes "evaluate_data rt data ev res = Inl e"
  shows "e = AttributeError \<or> e = TypeError"
proof (cases "dict_get_default data ''clues'' (JArray [])")
  case (Inl e0)
  with assms have "e = e0" by (simp add: evaluate_data_def)
  with Inl dict_get_default_error show ?thesis by blast
next
  case cl: (Inr cl)
  show ?thesis
  proof (cases "py_len cl")
    case (Inl e1)
    with assms cl have "e = e1" by (simp add: evaluate_data_def)
    with Inl py_len_error show ?thesis by blast
  next
    case n: (Inr n)
    from assms cl n have t: "truthy rt cl"
      by (auto simp: evaluate_data_def Let_def split: if_splits)
    show ?thesis
    proof (cases "py_iter cl")
      case (Inl e2)
      with assms cl n t have "e = e2" by (simp add: evaluate_data_def Let_def)
      with Inl py_iter_error show ?thesis by blast
    next
      case items: (Inr items)
      show ?thesis
      proof (cases "collect_values items")
        case (Inl e3)
        with assms cl n t items have "e = e3" by (simp add: evaluate_data_def Let_def)
        with Inl collect_values_error show ?thesis by blast
      next
        case vs: (Inr vs)
        show ?thesis
        proof (cases "collect_responses rt items")
          case (Inl e4)
          with assms cl n t items vs have "e = e4" by (simp add: evaluate_data_def Let_def)
          with Inl collect_responses_error show ?thesis by blast
        next
          case rs: (Inr rs)
          then have ok: "list_all (response_ok rt) items" by (rule collect_responses_Inr)
          then have obj: "list_all is_object items"
            by (auto simp: list_all_iff response_ok_object)
          from py_iter_objects [OF items obj t] have arr: "cl = JArray items" .
          from cl obtain kvs where "data = JObject kvs" by (cases data) auto
          with cl arr ok have "evaluable rt (Decoded data)"
            by (auto simp: evaluable_def split: option.splits)
          from evaluate_data_returns [OF this, of ev res] assms show ?thesis by auto
        qed
      qed
    qed
  qed
qed






lemma guidance_lines_ladder:
  "guidance_lines [200, 400, 600, 800, 1000] =
     Inr [''- $200: Obvious / very well-known facts'',
          ''- $400: Common knowledge within topic'',
          ''- $600: Requires familiarity with the topic'',
          ''- $800: Niche or specific details'',
          ''- $1000: Deep cuts / less obvious information'']"
  by (simp add: value_guidance_def str_int_def str_nat.simps)

lemma evaluate_data_cost:
  "evaluate_data rt data ev res = Inr r \<Longrightarrow> cost_usd r = cost_usd res"
  unfolding evaluate_data_def
  by (auto simp: Let_def split: sum.splits if_splits)

section \<open>The response evaluator: what it returns and when\<close>

text \<open>
  Claim C1 (the evaluator never raises), as amended. \<open>evaluate_response\<close> returns a
  result exactly when the cost is computed and \<open>json.loads\<close> either raises
  JSONDecodeError or returns an object whose \<open>clues\<close> is missing, empty, or a list of
  objects each with a response that is missing, false or a str. A JSONDecodeError
  becomes the parse error \<open>JSON parse error: ...\<close> (the first 50 characters of the
  message) and missing or empty clues become \<open>No clues found in response\<close>, with every
  derived field at its default. Missing fields of a clue raise nothing. Every other
  decoded payload (a top-level value that is not an object, clues that are not a list,
  a clue that is not an object, a true response that is not a str) leaves the
  evaluator as an AttributeError or TypeError: the only handler is for
  JSONDecodeError, and it is test_model, the caller, that catches the rest. (The cost
  is not computed when a token count divided by a million is beyond the floats:
  OverflowError, before anything is decoded.)
\<close>

theorem evaluate_response_returns_iff:
  "((\<exists>r. evaluate_response rt model_pricing d ev el model p c = Inr r) =
      (evaluable rt d \<and> (\<exists>cost. calculate_cost rt model_pricing model p c = Inr cost)))
   \<and> (\<forall>msg cost. d = DecodeError msg \<and> calculate_cost rt model_pricing model p c = Inr cost \<longrightarrow>
        evaluate_response rt model_pricing d ev el model p c =
          Inr ((initial_result rt el p c cost)
                 \<lparr>parse_error := Some (''JSON parse error: '' @ take 50 msg)\<rparr>))
   \<and> (\<forall>kvs cost. d = Decoded (JObject kvs)
          \<and> (map_of kvs ''clues'' = None \<or> map_of kvs ''clues'' = Some (JArray []))
          \<and> calculate_cost rt model_pricing model p c = Inr cost \<longrightarrow>
        evaluate_response rt model_pricing d ev el model p c =
          Inr ((initial_result rt el p c cost)
                 \<lparr>valid_json := True, parse_error := Some ''No clues found in response''\<rparr>))
   \<and> (\<forall>data e. d = Decoded data
          \<and> evaluate_response rt model_pricing d ev el model p c = Inl e \<longrightarrow>
        e = AttributeError \<or> e = TypeError \<or> e = OverflowError)"
proof (intro conjI allI impI)
  show "(\<exists>r. evaluate_response rt model_pricing d ev el model p c = Inr r) =
      (evaluable rt d \<and> (\<exists>cost. calculate_cost rt model_pricing model p c = Inr cost))"
  proof (cases "calculate_cost rt model_pricing model p c")
    case (Inl e)
    then show ?thesis by (simp add: evaluate_response_def)
  next
    case (Inr cost)
    show ?thesis
    proof (cases d)
      case (DecodeError msg)
      with Inr show ?thesis by (simp add: evaluate_response_def evaluable_def)
    next
      case (OtherError e)
      with Inr show ?thesis by (simp add: evaluate_response_def evaluable_def)
    next
      case (Decoded data)
      with Inr show ?thesis
        using evaluate_data_returns [of rt data ev] evaluate_data_Inr [of rt data ev]
        by (auto simp: evaluate_response_def Let_def)
    qed
  qed
next
  fix msg cost
  assume "d = DecodeError msg \<and> calculate_cost rt model_pricing model p c = Inr cost"
  then show "evaluate_response rt model_pricing d ev el model p c =
          Inr ((initial_result rt el p c cost)
                 \<lparr>parse_error := Some (''JSON parse error: '' @ take 50 msg)\<rparr>)"
    by (simp add: evaluate_response_def)
next
  fix kvs cost
  assume "d = Decoded (JObject kvs)
          \<and> (map_of kvs ''clues'' = None \<or> map_of kvs ''clues'' = Some (JArray []))
          \<and> calculate_cost rt model_pricing model p c = Inr cost"
  then show "evaluate_response rt model_pricing d ev el model p c =
          Inr ((initial_result rt el p c cost)
                 \<lparr>valid_json := True, parse_error := Some ''No clues found in response''\<rparr>)"
    by (auto simp: evaluate_response_def evaluate_data_def initial_result_def)
next
  fix data e
  assume a: "d = Decoded data
          \<and> evaluate_response rt model_pricing d ev el model p c = Inl e"
  show "e = AttributeError \<or> e = TypeError \<or> e = OverflowError"
  proof (cases "calculate_cost rt model_pricing model p c")
    case (Inl e')
    with a have "e = e'" by (simp add: evaluate_response_def)
    with Inl show ?thesis
      by (auto simp: calculate_cost_def Let_def split: if_splits option.splits)
  next
    case (Inr cost)
    with a show ?thesis
      by (auto simp: evaluate_response_def Let_def dest: evaluate_data_error)
  qed
qed

text \<open>
  The theorem at a decoding failure, at an object without clues, at a clue list with
  missing fields, and at a top-level list.
\<close>

theorem evaluate_response_returns_witness:
  "evaluate_response exact_runtime Map.empty
       (DecodeError ''Expecting value: line 1 column 1 (char 0)'')
       canonical_ladder 1 ''m'' 0 0 =
     Inr ((initial_result exact_runtime 1 0 0 0)
            \<lparr>parse_error :=
               Some ''JSON parse error: Expecting value: line 1 column 1 (char 0)''\<rparr>)
   \<and> evaluate_response exact_runtime Map.empty (Decoded (JObject []))
       canonical_ladder 1 ''m'' 0 0 =
     Inr ((initial_result exact_runtime 1 0 0 0)
            \<lparr>valid_json := True, parse_error := Some ''No clues found in response''\<rparr>)
   \<and> (\<exists>r. evaluate_response exact_runtime Map.empty
             (Decoded (clues_payload [JObject [(''value'', JInt 200)], JObject []]))
             canonical_ladder 1 ''m'' 0 0 = Inr r)
   \<and> (\<nexists>r. evaluate_response exact_runtime Map.empty (Decoded (JArray []))
             canonical_ladder 1 ''m'' 0 0 = Inr r)"
proof (intro conjI)
  have cost: "calculate_cost exact_runtime Map.empty ''m'' 0 0 = Inr 0"
    by (simp add: calculate_cost_def exact_runtime_def)
  let ?msg = "''Expecting value: line 1 column 1 (char 0)''"
  from cost evaluate_response_returns_iff
    [of exact_runtime Map.empty "DecodeError ?msg" canonical_ladder 1 "''m''" 0 0]
  show "evaluate_response exact_runtime Map.empty (DecodeError ?msg)
       canonical_ladder 1 ''m'' 0 0 =
     Inr ((initial_result exact_runtime 1 0 0 0)
            \<lparr>parse_error :=
               Some ''JSON parse error: Expecting value: line 1 column 1 (char 0)''\<rparr>)"
    by simp
  from cost evaluate_response_returns_iff
    [of exact_runtime Map.empty "Decoded (JObject [])" canonical_ladder 1 "''m''" 0 0]
  show "evaluate_response exact_runtime Map.empty (Decoded (JObject []))
       canonical_ladder 1 ''m'' 0 0 =
     Inr ((initial_result exact_runtime 1 0 0 0)
            \<lparr>valid_json := True, parse_error := Some ''No clues found in response''\<rparr>)"
    by simp
  let ?d = "Decoded (clues_payload [JObject [(''value'', JInt 200)], JObject []])
              :: rat loads_outcome"
  have "evaluable exact_runtime ?d" by (simp add: evaluable_def clues_payload_def)
  with cost evaluate_response_returns_iff
    [of exact_runtime Map.empty ?d canonical_ladder 1 "''m''" 0 0]
  show "\<exists>r. evaluate_response exact_runtime Map.empty ?d canonical_ladder 1 ''m'' 0 0 = Inr r"
    by blast
  let ?l = "Decoded (JArray []) :: rat loads_outcome"
  have "\<not> evaluable exact_runtime ?l" by (simp add: evaluable_def)
  with evaluate_response_returns_iff
    [of exact_runtime Map.empty ?l canonical_ladder 1 "''m''" 0 0]
  show "\<nexists>r. evaluate_response exact_runtime Map.empty ?l canonical_ladder 1 ''m'' 0 0 = Inr r"
    by blast
qed

text \<open>
  The claim as stated fails: decoded from \<open>[]\<close>, from \<open>{"clues": ["a", "b"]}\<close> and from
  \<open>{"clues": [1, 2]}\<close>, the payload makes \<open>evaluate_response\<close> raise.
\<close>

theorem evaluate_response_raises:
  "evaluate_response exact_runtime Map.empty (Decoded (JArray []))
       canonical_ladder 1 ''m'' 0 0 = Inl AttributeError
   \<and> evaluate_response exact_runtime Map.empty
       (Decoded (JObject [(''clues'', JArray [JString ''a'', JString ''b''])]))
       canonical_ladder 1 ''m'' 0 0 = Inl AttributeError
   \<and> evaluate_response exact_runtime Map.empty
       (Decoded (JObject [(''clues'', JArray [JInt 1, JInt 2])]))
       canonical_ladder 1 ''m'' 0 0 = Inl TypeError"
  by (simp add: evaluate_response_def evaluate_data_def calculate_cost_def dict_get_def
      startswith_def Let_def exact_runtime_def)

text \<open>
  Claim C2 (the quality score stays in range). Whenever \<open>evaluate_response\<close> returns a
  result, its \<open>quality_score\<close> is an integer from 0 to 10, whatever penalties have
  accumulated, and it is 0 on the two early returns: whenever a parse error is
  recorded, and in particular when decoding failed.
\<close>

theorem evaluate_response_score_range:
  "evaluate_response rt model_pricing d ev el model p c = Inr r \<Longrightarrow>
     0 \<le> quality_score r \<and> quality_score r \<le> 10
     \<and> (parse_error r \<noteq> None \<longrightarrow> quality_score r = 0)
     \<and> (\<forall>msg. d = DecodeError msg \<longrightarrow> quality_score r = 0)"
  unfolding evaluate_response_def evaluate_data_def
  by (auto simp: Let_def initial_result_def
      split: sum.splits if_splits loads_outcome.splits)

text \<open>
  The theorem at a decoding failure and at a single empty clue, whose penalties
  (five missing values, no clue text, no response, four clues short) sum to 16.
\<close>

theorem evaluate_response_score_range_witness:
  "(\<exists>r. evaluate_response exact_runtime Map.empty (DecodeError ''Expecting value'')
          canonical_ladder 1 ''m'' 0 0 = Inr r
        \<and> parse_error r \<noteq> None \<and> quality_score r = 0)
   \<and> (\<exists>r. evaluate_response exact_runtime Map.empty (Decoded (clues_payload [JObject []]))
          canonical_ladder 1 ''m'' 0 0 = Inr r
        \<and> quality_score r = max 0 (min 10 (10 - 16))
        \<and> 0 \<le> quality_score r \<and> quality_score r \<le> 10)"
proof
  let ?d = "DecodeError ''Expecting value'' :: rat loads_outcome"
  obtain r where r: "evaluate_response exact_runtime Map.empty ?d canonical_ladder
      1 ''m'' 0 0 = Inr r" and e: "parse_error r \<noteq> None"
    by (simp add: evaluate_response_def calculate_cost_def exact_runtime_def)
  from evaluate_response_score_range [OF r] r e
  show "\<exists>r. evaluate_response exact_runtime Map.empty ?d canonical_ladder 1 ''m'' 0 0 = Inr r
          \<and> parse_error r \<noteq> None \<and> quality_score r = 0" by blast
next
  let ?d = "Decoded (clues_payload [JObject []]) :: rat loads_outcome"
  obtain r where r: "evaluate_response exact_runtime Map.empty ?d canonical_ladder
      1 ''m'' 0 0 = Inr r" and q: "quality_score r = max 0 (min 10 (10 - 16))"
    by (simp add: evaluate_response_def evaluate_data_def calculate_cost_def
        clues_payload_def dict_get_def Let_def exact_runtime_def canonical_ladder_def)
  from evaluate_response_score_range [OF r] r q
  show "\<exists>r. evaluate_response exact_runtime Map.empty ?d canonical_ladder 1 ''m'' 0 0 = Inr r
          \<and> quality_score r = max 0 (min 10 (10 - 16))
          \<and> 0 \<le> quality_score r \<and> quality_score r \<le> 10" by blast
qed

text \<open>
  Claim C3 (the Rome example). For the five clues 200 "a" "Rome", 400 "b" "Paris",
  600 "c" "Rome", 800 "d" "Berlin", 1000 "e" "Madrid" against the canonical ladder,
  the evaluator returns a result with \<open>all_values_present\<close> true, \<open>unique_answers\<close>
  false, exactly one duplicate entry, \<open>Value 600: rome\<close> (the value 600 with the
  normalized form of the response "Rome"), and \<open>quality_score\<close> 10 - 3 = 7. This is
  for every model, pricing table and token counts for which the cost is computed.
\<close>

theorem evaluate_response_rome:
  assumes "calculate_cost rt model_pricing model p c = Inr cost"
  shows "\<exists>r. evaluate_response rt model_pricing
          (Decoded (clues_payload
             [clue_object 200 ''a'' ''Rome'', clue_object 400 ''b'' ''Paris'',
              clue_object 600 ''c'' ''Rome'', clue_object 800 ''d'' ''Berlin'',
              clue_object 1000 ''e'' ''Madrid'']))
          canonical_ladder el model p c = Inr r
      \<and> valid_json r \<and> parse_error r = None \<and> clue_count r = 5
      \<and> all_values_present r \<and> missing_values r = [] \<and> \<not> unique_answers r
      \<and> duplicate_answers r = [''Value 600: rome''] \<and> quality_score r = 10 - 3"
  using assms
  by (simp add: evaluate_response_def evaluate_data_def clues_payload_def clue_object_def
      canonical_ladder_def dict_get_def Let_def lower_def lower_char_def strip_def isspace_def
      py_str_def str_int_def str_nat.simps card_insert_if initial_result_def
      char_of_def bit_iff_odd_drop_bit)

theorem evaluate_response_rome_witness:
  "\<exists>r. evaluate_response exact_runtime Map.empty
          (Decoded (clues_payload
             [clue_object 200 ''a'' ''Rome'', clue_object 400 ''b'' ''Paris'',
              clue_object 600 ''c'' ''Rome'', clue_object 800 ''d'' ''Berlin'',
              clue_object 1000 ''e'' ''Madrid'']))
          canonical_ladder 1 ''m'' 0 0 = Inr r
      \<and> all_values_present r \<and> \<not> unique_answers r
      \<and> duplicate_answers r = [''Value 600: rome''] \<and> quality_score r = 7"
proof -
  have cost: "calculate_cost exact_runtime Map.empty ''m'' 0 0 = Inr 0"
    by (simp add: calculate_cost_def exact_runtime_def)
  from evaluate_response_rome [OF cost, where el = 1]
  show ?thesis by auto
qed




section \<open>The response cleaner: idempotence, unfenced input, fenced input\<close>

text \<open>
  Claim C5 (idempotence of the cleaner), as amended. One pass removes one layer of
  fencing, so a second pass changes the text again when the first pass leaves a text
  that still begins with a fence marker. Cleaning twice equals cleaning once exactly
  when the once-cleaned text does not begin with a fence marker, or is a single line
  that begins with one and does not end with one (which the cleaner leaves alone). In
  particular it holds for every input that does not begin with a fence marker.
\<close>

theorem clean_response_idempotent_iff:
  "((clean_response (clean_response s) = clean_response s) =
      (\<not> startswith (clean_response s) fence
       \<or> (newline \<notin> set (clean_response s) \<and> \<not> endswith (clean_response s) fence)))
   \<and> (\<not> startswith s fence \<longrightarrow> clean_response (clean_response s) = clean_response s)"
proof
  show "(clean_response (clean_response s) = clean_response s) =
      (\<not> startswith (clean_response s) fence
       \<or> (newline \<notin> set (clean_response s) \<and> \<not> endswith (clean_response s) fence))"
    by (rule clean_response_fixed_point)
  show "\<not> startswith s fence \<longrightarrow> clean_response (clean_response s) = clean_response s"
    by (simp add: clean_response_unfenced)
qed

text \<open>
  The theorem at an unfenced payload and at a singly fenced one: both are cleaned to
  the same text by one pass and by two.
\<close>

theorem clean_response_idempotent_witness:
  "clean_response (clean_response ''{}'') = clean_response ''{}''
   \<and> clean_response (clean_response (''```json'' @ newline # ''{}'' @ newline # ''```''))
       = clean_response (''```json'' @ newline # ''{}'' @ newline # ''```'')"
proof
  have "\<not> startswith ''{}'' fence" by (simp add: startswith_def fence_def)
  with clean_response_idempotent_iff [of "''{}''"]
  show "clean_response (clean_response ''{}'') = clean_response ''{}''" by blast
next
  let ?s = "''```json'' @ newline # ''{}'' @ newline # ''```''"
  have c: "clean_response ?s = ''{}''"
    by (simp add: clean_response_def startswith_def endswith_def fence_def newline_def
        strip_def isspace_def Let_def)
  have "\<not> startswith (clean_response ?s) fence"
    unfolding c by (simp add: startswith_def fence_def)
  with clean_response_idempotent_iff [of ?s]
  show "clean_response (clean_response ?s) = clean_response ?s" by blast
qed

text \<open>
  The claim as stated fails on nested fences: the input
  \<open>```\n```json\n{}\n```\n```\<close> is cleaned to \<open>```json\n{}\n```\<close>, and that to \<open>{}\<close>.
\<close>

theorem clean_response_not_idempotent:
  "clean_response (clean_response
      (''```'' @ newline # ''```json'' @ newline # ''{}'' @ newline # ''```'' @ newline # ''```''))
   \<noteq> clean_response
      (''```'' @ newline # ''```json'' @ newline # ''{}'' @ newline # ''```'' @ newline # ''```'')"
  by (simp add: clean_response_def startswith_def endswith_def fence_def newline_def
      strip_def isspace_def Let_def)

text \<open>
  Claim C6 (input that does not begin with a fence marker), as amended: the cleaner
  returns such an input exactly as it is. It does not trim it: \<open>strip\<close> is applied only
  after a closing fence marker has been removed.
\<close>

theorem clean_response_unfenced_identity:
  "\<not> startswith s fence \<Longrightarrow> clean_response s = s"
  by (rule clean_response_unfenced)

theorem clean_response_unfenced_identity_witness:
  \<open>\<not> startswith ''{"clues": []}'' fence
   \<and> clean_response ''{"clues": []}'' = ''{"clues": []}''\<close>
proof -
  have h: \<open>\<not> startswith ''{"clues": []}'' fence\<close>
    by (simp add: startswith_def fence_def)
  from h clean_response_unfenced_identity [OF h] show ?thesis by simp
qed

text \<open>
  The claim as stated says the trimmed text is returned; an unfenced input with a
  leading space comes back untrimmed.
\<close>

theorem clean_response_unfenced_not_trimmed:
  "\<not> startswith '' {}'' fence \<and> clean_response '' {}'' \<noteq> strip '' {}''"
  by (simp add: clean_response_def startswith_def fence_def strip_def isspace_def)

text \<open>
  Claim C7 (input that begins with a fence marker), as amended. When the input has a
  line break, the whole first line (marker, language tag and line break) is removed;
  an input of a single line keeps it, since the code removes the first line only when
  \<open>split\<close> gives more than one line. If the text then ends with a fence marker, its
  last three characters are removed and the rest is stripped of whitespace at both
  ends. For \<open>```json\n{...}\n```\<close> the result is exactly \<open>{...}\<close>.
\<close>

theorem clean_response_fenced_result:
  "(startswith s fence \<longrightarrow>
      clean_response s =
        (let rest = (if newline \<in> set s then after_first_line s else s)
         in if endswith rest fence then strip (take (length rest - 3) rest) else rest))
   \<and> (newline \<in> set s \<longrightarrow>
        s = takeWhile (\<lambda>c. c \<noteq> newline) s @ newline # after_first_line s)
   \<and> clean_response (''```json'' @ newline # ''{'' @ body @ ''}'' @ newline # fence)
        = ''{'' @ body @ ''}''"
  using clean_response_fenced [of s] first_line_split [of s] fenced_json_example [of body]
  by blast

theorem clean_response_fenced_result_witness:
  \<open>clean_response (''```json'' @ newline # ''{"clues": []}'' @ newline # ''```'')
     = ''{"clues": []}''
   \<and> clean_response (''```'' @ newline # ''x'') = ''x''\<close>
proof
  show \<open>clean_response (''```json'' @ newline # ''{"clues": []}'' @ newline # ''```'')
     = ''{"clues": []}''\<close>
    using clean_response_fenced_result [of "[]" \<open>''"clues": []''\<close>]
    by (simp add: fence_def)
next
  let ?s = "''```'' @ newline # ''x''"
  have sw: "startswith ?s fence" by (simp add: startswith_def fence_def)
  have "clean_response ?s =
        (let rest = (if newline \<in> set ?s then after_first_line ?s else ?s)
         in if endswith rest fence then strip (take (length rest - 3) rest) else rest)"
    using clean_response_fenced_result [of ?s "[]"] sw by blast
  then show "clean_response ?s = ''x''"
    by (simp add: after_first_line_def endswith_def fence_def newline_def)
qed

text \<open>
  The claim as stated fails on a single line: \<open>```json\<close> begins with a fence marker
  and comes back whole, first line included.
\<close>

theorem clean_response_single_line_kept:
  "startswith ''```json'' fence \<and> clean_response ''```json'' = ''```json''"
  by (simp add: clean_response_def startswith_def endswith_def fence_def newline_def Let_def)

section \<open>Cost\<close>

text \<open>
  Claim C8 (cost of a call). For every model identifier and token counts: when the
  pricing table has no entry for the model (as when the table is empty), the cost is
  exactly \<open>0.0\<close>; when it has an entry with a prompt price and a completion price, the
  cost is \<open>(prompt_tokens / 1000000) * prompt_price + (completion_tokens / 1000000) *
  completion_price\<close> in Python's arithmetic, the quotients being floats. This value is
  the \<open>cost_usd\<close> of the evaluator's result.
\<close>

theorem calculate_cost_cases:
  "(model_pricing model = None \<longrightarrow>
      calculate_cost rt model_pricing model p c = Inr (float_zero rt))
   \<and> (\<forall>e pp cp qp qc.
        model_pricing model = Some e \<and> map_of e ''prompt'' = Some pp
          \<and> map_of e ''completion'' = Some cp
          \<and> int_truediv rt p 1000000 = Some qp \<and> int_truediv rt c 1000000 = Some qc \<longrightarrow>
        calculate_cost rt model_pricing model p c =
          Inr (float_add rt (float_mul rt qp pp) (float_mul rt qc cp)))
   \<and> (\<forall>r. evaluate_response rt model_pricing d ev el model p c = Inr r \<longrightarrow>
        calculate_cost rt model_pricing model p c = Inr (cost_usd r))"
proof (intro conjI allI impI)
  assume "model_pricing model = None"
  then show "calculate_cost rt model_pricing model p c = Inr (float_zero rt)"
    by (simp add: calculate_cost_def)
next
  fix e pp cp qp qc
  assume a: "model_pricing model = Some e \<and> map_of e ''prompt'' = Some pp
          \<and> map_of e ''completion'' = Some cp
          \<and> int_truediv rt p 1000000 = Some qp \<and> int_truediv rt c 1000000 = Some qc"
  then have "e \<noteq> []" by auto
  with a show "calculate_cost rt model_pricing model p c =
          Inr (float_add rt (float_mul rt qp pp) (float_mul rt qc cp))"
    by (simp add: calculate_cost_def price_get_def Let_def)
next
  fix r
  assume "evaluate_response rt model_pricing d ev el model p c = Inr r"
  then show "calculate_cost rt model_pricing model p c = Inr (cost_usd r)"
    unfolding evaluate_response_def
    by (auto simp: Let_def initial_result_def dest!: evaluate_data_cost
        split: sum.splits loads_outcome.splits)
qed

text \<open>
  The theorem on the empty table, and on a table with prices 3 and 5 per token for
  1000 and 2000 tokens, in exact arithmetic: 0.001 * 3 + 0.002 * 5.
\<close>

theorem calculate_cost_cases_witness:
  "calculate_cost exact_runtime Map.empty ''openai/gpt-4o-mini'' 1000 2000 = Inr 0
   \<and> calculate_cost exact_runtime
        [''openai/gpt-4o-mini'' \<mapsto> [(''prompt'', 3), (''completion'', 5)]]
        ''openai/gpt-4o-mini'' 1000 2000 = Inr (13 / 1000)
   \<and> (\<exists>r. evaluate_response exact_runtime Map.empty (Decoded (JObject [])) canonical_ladder
          1 ''openai/gpt-4o-mini'' 1000 2000 = Inr r \<and> cost_usd r = 0)"
proof (intro conjI)
  from calculate_cost_cases [of Map.empty "''openai/gpt-4o-mini''" exact_runtime 1000 2000]
  show z: "calculate_cost exact_runtime Map.empty ''openai/gpt-4o-mini'' 1000 2000 = Inr 0"
    by (simp add: exact_runtime_def)
  let ?t = "[''openai/gpt-4o-mini'' \<mapsto> [(''prompt'', 3), (''completion'', 5)]]
              :: rat pricing_table"
  have "?t ''openai/gpt-4o-mini'' = Some [(''prompt'', 3), (''completion'', 5)]
        \<and> map_of [(''prompt'', 3 :: rat), (''completion'', 5)] ''prompt'' = Some 3
        \<and> map_of [(''prompt'', 3 :: rat), (''completion'', 5)] ''completion'' = Some 5
        \<and> int_truediv exact_runtime 1000 1000000 = Some (1 / 1000)
        \<and> int_truediv exact_runtime 2000 1000000 = Some (2 / 1000)"
    by (simp add: exact_runtime_def)
  with calculate_cost_cases [of ?t "''openai/gpt-4o-mini''" exact_runtime 1000 2000]
  have "calculate_cost exact_runtime ?t ''openai/gpt-4o-mini'' 1000 2000 =
          Inr (float_add exact_runtime
            (float_mul exact_runtime (1 / 1000) 3)
            (float_mul exact_runtime (2 / 1000) 5))"
    by blast
  then show "calculate_cost exact_runtime ?t ''openai/gpt-4o-mini'' 1000 2000
      = Inr (13 / 1000)"
    by (simp add: exact_runtime_def)
  obtain r where r: "evaluate_response exact_runtime Map.empty (Decoded (JObject []))
      canonical_ladder 1 ''openai/gpt-4o-mini'' 1000 2000 = Inr r"
    by (simp add: evaluate_response_def evaluate_data_def z)
  with calculate_cost_cases [of Map.empty "''openai/gpt-4o-mini''" exact_runtime 1000 2000
      "Decoded (JObject [])" canonical_ladder 1] z
  have "cost_usd r = 0" by auto
  with r show "\<exists>r. evaluate_response exact_runtime Map.empty (Decoded (JObject []))
      canonical_ladder 1 ''openai/gpt-4o-mini'' 1000 2000 = Inr r \<and> cost_usd r = 0"
    by blast
qed

section \<open>The prompt builder: truncation of the reference text\<close>

text \<open>
  Claim C9 (truncation of the reference text). For every reference text longer than
  the budget of 3000 characters, \<open>build_jeopardy_prompt\<close> returns a prompt (no
  exception, and a function of its arguments only: nothing is logged), and the
  reference material in it, between the line \<open>Source material to use for questions:\<close>
  and the sentence that follows, is the first 3000 characters of the text: its
  length is the budget.
\<close>

theorem build_jeopardy_prompt_truncates:
  \<open>reference_budget < length r \<Longrightarrow>
     build_jeopardy_prompt category content_topic theme difficulty (Some r) =
       Inr (prompt_head category content_topic theme (difficulty_text difficulty)
              (join_newline
                 [''- $200: Obvious / very well-known facts'',
                  ''- $400: Common knowledge within topic'',
                  ''- $600: Requires familiarity with the topic'',
                  ''- $800: Niche or specific details'',
                  ''- $1000: Deep cuts / less obvious information''])
            @ ''\<newline>Source material to use for questions:\<newline>''
            @ take 3000 r
            @ ''\<newline>\<newline>All clues must be answerable from the source material above.\<newline>''
            @ prompt_tail)
     \<and> length (take 3000 r) = 3000 \<and> reference_budget = 3000\<close>
proof -
  assume a: "reference_budget < length r"
  then have "r \<noteq> []" by auto
  then show ?thesis
    using a unfolding build_jeopardy_prompt_def guidance_lines_ladder ref_material_text_def
    by (simp add: reference_budget_def)
qed

theorem build_jeopardy_prompt_truncates_witness:
  \<open>reference_budget < length (replicate 3001 (CHR ''a'')) \<and>
   build_jeopardy_prompt ''Planets'' ''Solar System'' ''Space'' ''normal''
       (Some (replicate 3001 (CHR ''a''))) =
       Inr (prompt_head ''Planets'' ''Solar System'' ''Space'' ''Balanced difficulty level.''
              (join_newline
                 [''- $200: Obvious / very well-known facts'',
                  ''- $400: Common knowledge within topic'',
                  ''- $600: Requires familiarity with the topic'',
                  ''- $800: Niche or specific details'',
                  ''- $1000: Deep cuts / less obvious information''])
            @ ''\<newline>Source material to use for questions:\<newline>''
            @ replicate 3000 (CHR ''a'')
            @ ''\<newline>\<newline>All clues must be answerable from the source material above.\<newline>''
            @ prompt_tail)\<close>
proof -
  have h: "reference_budget < length (replicate 3001 (CHR ''a''))"
    by (simp add: reference_budget_def)
  from h build_jeopardy_prompt_truncates
    [OF h, of "''Planets''" "''Solar System''" "''Space''" "''normal''"]
  show ?thesis by (simp add: difficulty_text_def)
qed

section \<open>Clues without a response\<close>

text \<open>
  What does hold of the clues without a response: the list of responses compared is
  that of the clues with a true response, so \<open>unique_answers\<close> and the number of
  duplicate entries do not depend on the other clues.
\<close>

lemma collect_responses_skips_unanswered:
  "list_all is_object items \<Longrightarrow>
     collect_responses rt items = collect_responses rt (filter (has_response rt) items)"
proof (induction items)
  case Nil
  show ?case by simp
next
  case (Cons x xs)
  then obtain kvs where x: "x = JObject kvs" by (cases x) auto
  from Cons have ih: "collect_responses rt xs
      = collect_responses rt (filter (has_response rt) xs)" by simp
  show ?case
  proof (cases "has_response rt x")
    case True
    then show ?thesis
      unfolding x using ih
      by (auto simp: dict_get_def split: option.splits json.splits)
  next
    case False
    then show ?thesis
      unfolding x using ih
      by (auto simp: dict_get_def split: option.splits)
  qed
qed

text \<open>
  Claim C10 (clues without a response are left out of the duplicate detection), on
  the payload of five clues 200 "a" "x", 400 "b" with no response, 600 "c" "x",
  800 "d" "y", 1000 "e" "z". The responses compared are those of the clues 200, 600,
  800 and 1000, and the repeated "x" is the clue 600. The entry recorded is
  \<open>Value 400: x\<close>: the index of the repeated response in the list of responses is used
  on the list of all clues, so the entry takes its value from the clue that has no
  response. Without that clue the same payload gives \<open>Value 600: x\<close>. The clue without
  a response costs the one point of the missing response: 10 - 3 - 1 = 6.
\<close>

theorem duplicate_label_from_unanswered_clue:
  "\<exists>r r'. evaluate_response exact_runtime Map.empty
          (Decoded (clues_payload
             [clue_object 200 ''a'' ''x'',
              JObject [(''value'', JInt 400), (''clue'', JString ''b'')],
              clue_object 600 ''c'' ''x'', clue_object 800 ''d'' ''y'',
              clue_object 1000 ''e'' ''z'']))
          canonical_ladder 1 ''m'' 0 0 = Inr r
      \<and> duplicate_answers r = [''Value 400: x''] \<and> \<not> unique_answers r
      \<and> quality_score r = 6
      \<and> evaluate_response exact_runtime Map.empty
          (Decoded (clues_payload
             [clue_object 200 ''a'' ''x'',
              clue_object 600 ''c'' ''x'', clue_object 800 ''d'' ''y'',
              clue_object 1000 ''e'' ''z'']))
          canonical_ladder 1 ''m'' 0 0 = Inr r'
      \<and> duplicate_answers r' = [''Value 600: x'']"
  by (simp add: evaluate_response_def evaluate_data_def calculate_cost_def clues_payload_def
      clue_object_def canonical_ladder_def dict_get_def Let_def lower_def lower_char_def
      strip_def isspace_def py_str_def str_int_def str_nat.simps card_insert_if
      initial_result_def exact_runtime_def)

end
